theory Spec2Isabelle
  imports Main "HOL-Library.Sublist"
begin

section \<open>The packaging descriptor of disentanglement\_lib\<close>

text \<open>
  The source is \<^verbatim>\<open>setup.py\<close>: one call \<^verbatim>\<open>setup(...)\<close> whose keyword arguments
  are literals, except \<^verbatim>\<open>packages=find_packages()\<close>, which reads the directory the
  descriptor runs in. The keyword arguments are a record; the result of
  \<^verbatim>\<open>find_packages()\<close> is the only thing the call takes from its environment,
  so it is the parameter of the model.
\<close>

subsection \<open>The keyword arguments of the call\<close>

text \<open>
  Python lists are lists. The dictionary \<^verbatim>\<open>extras_require\<close> is kept as the list of
  its key/value pairs in the order of the literal; \<open>dict_of\<close> gives the dictionary
  that Python builds from such a literal, where a later pair with the same key
  replaces an earlier one.
\<close>

record setup_args =
  name :: string
  version :: string
  description :: string
  author :: string
  author_email :: string
  url :: string
  license :: string
  packages :: "string list"
  include_package_data :: bool
  scripts :: "string list"
  install_requires :: "string list"
  extras_require :: "(string \<times> string list) list"
  classifiers :: "string list"
  keywords_arg :: string

definition dict_of :: "('k \<times> 'v) list \<Rightarrow> ('k \<rightharpoonup> 'v)" where
  "dict_of kvs = map_of (rev kvs)"

definition setup_kwargs :: "string list \<Rightarrow> setup_args" where
  "setup_kwargs found_packages = \<lparr>
     name = ''disentanglement_lib'',
     version = ''1.5'',
     description = ''Library for research on disentangled representations.'',
     author = ''DisentanglementLib Authors'',
     author_email = ''no-reply@google.com'',
     url = ''http://github.com/google-research/disentanglement_lib'',
     license = ''Apache 2.0'',
     packages = found_packages,
     include_package_data = True,
     scripts = [
       ''bin/dlib_aggregate_results'',
       ''bin/dlib_reproduce'',
       ''bin/dlib_reason'',
       ''bin/dlib_visualize_dataset'',
       ''bin/dlib_evaluate'',
       ''bin/dlib_udr'',
       ''bin/dlib_postprocess'',
       ''bin/dlib_train'',
       ''bin/dlib_visualize_dataset'',
       ''bin/dlib_visualize_model'',
       ''bin/dlib_tests'',
       ''bin/dlib_download_data'',
       ''bin/dlib_reproduce_jmlr'',
       ''bin/dlib_reproduce_semi_supervised'',
       ''bin/dlib_reproduce_weakly_supervised'',
       ''bin/dlib_train_semi_supervised'',
       ''bin/dlib_train_weakly_supervised''
     ],
     install_requires = [
       ''future==0.17.1'',
       ''imageio==2.5.0'',
       ''gin-config==0.1.4'',
       ''scikit-learn==0.20.3'',
       ''numpy==1.16.3'',
       ''pandas==0.24.2'',
       ''simplejson==3.16.0'',
       ''six==1.12.0'',
       ''matplotlib==3.0.3'',
       ''Pillow==6.0.0'',
       ''scipy==1.2.1'',
       ''tensorflow-hub==0.4.0'',
       ''tensorflow_probability==0.7.0'',
       ''seaborn==0.11.0''
     ],
     extras_require = [
       (''tf'', [''tensorflow==1.14'']),
       (''tf_gpu'', [''tensorflow-gpu==1.14''])
     ],
     classifiers = [
       ''Development Status :: 4 - Beta'',
       ''Intended Audience :: Developers'',
       ''Intended Audience :: Science/Research'',
       ''License :: OSI Approved :: Apache Software License'',
       ''Topic :: Scientific/Engineering :: Artificial Intelligence''
     ],
     keywords_arg = ''tensorflow machine learning disentanglement learning''
   \<rparr>"

text \<open>
  Every dependency string the call declares: the base requirements, then the
  requirements of each extra.
\<close>

definition declared_dependencies :: "setup_args \<Rightarrow> string list" where
  "declared_dependencies a = install_requires a @ concat (map snd (extras_require a))"

subsection \<open>The form of an exact version pin\<close>

text \<open>
  The descriptor itself never parses its dependency strings. The specification
  speaks of strings of the form \<^verbatim>\<open><name>==<version>\<close>; the functions below read
  such a string. A name is made of letters, digits, \<^verbatim>\<open>.\<close>, \<^verbatim>\<open>_\<close> and \<^verbatim>\<open>-\<close> and
  begins and ends with a letter or digit. A version is a dot-separated sequence of
  non-empty digit groups, so a range (\<^verbatim>\<open>>=\<close>, \<^verbatim>\<open><\<close>, a comma), a wildcard
  (\<^verbatim>\<open>1.*\<close>) and a bare name are all rejected.
\<close>

definition is_digit :: "char \<Rightarrow> bool" where
  "is_digit c = (c \<in> set ''0123456789'')"

definition is_alnum :: "char \<Rightarrow> bool" where
  "is_alnum c =
     (c \<in> set ''abcdefghijklmnopqrstuvwxyzABCDEFGHIJKLMNOPQRSTUVWXYZ0123456789'')"

definition is_name_char :: "char \<Rightarrow> bool" where
  "is_name_char c = (is_alnum c \<or> c \<in> set ''._-'')"

fun split_at_eqeq :: "string \<Rightarrow> (string \<times> string) option" where
  "split_at_eqeq [] = None"
| "split_at_eqeq [c] = None"
| "split_at_eqeq (c # d # cs) =
     (if c = CHR ''='' \<and> d = CHR ''='' then Some ([], cs)
      else map_option (\<lambda>(n, v). (c # n, v)) (split_at_eqeq (d # cs)))"

fun split_on :: "char \<Rightarrow> string \<Rightarrow> string list" where
  "split_on sep [] = [[]]"
| "split_on sep (c # cs) =
     (if c = sep then [] # split_on sep cs
      else (case split_on sep cs of
              [] \<Rightarrow> [[c]]
            | g # gs \<Rightarrow> (c # g) # gs))"

definition valid_name :: "string \<Rightarrow> bool" where
  "valid_name n =
     (case n of
        [] \<Rightarrow> False
      | c # cs \<Rightarrow> is_alnum c \<and> is_alnum (last (c # cs)) \<and> list_all is_name_char cs)"

definition valid_version :: "string \<Rightarrow> bool" where
  "valid_version v =
     list_all (\<lambda>g. g \<noteq> [] \<and> list_all is_digit g) (split_on (CHR ''.'') v)"

definition parse_pin :: "string \<Rightarrow> (string \<times> string) option" where
  "parse_pin s =
     (case split_at_eqeq s of
        None \<Rightarrow> None
      | Some (n, v) \<Rightarrow> if valid_name n \<and> valid_version v then Some (n, v) else None)"

definition requirement_name :: "string \<Rightarrow> string option" where
  "requirement_name s = map_option fst (parse_pin s)"

text \<open>
  The versions to which a list of requirement strings pins the package \<open>n\<close>, one
  entry for each string that is a pin of \<open>n\<close>.
\<close>

definition pinned_versions :: "string list \<Rightarrow> string \<Rightarrow> string list" where
  "pinned_versions reqs n = [v. Some (n', v) \<leftarrow> map parse_pin reqs, n' = n]"

subsection \<open>The console scripts the specification names\<close>

text \<open>
  The sixteen entry points as the specification lists them, in its order. This
  list follows the specification; \<open>scripts\<close> above follows the source.
\<close>

definition spec_console_scripts :: "string list" where
  "spec_console_scripts = [
     ''dlib_aggregate_results'',
     ''dlib_reproduce'',
     ''dlib_reason'',
     ''dlib_visualize_dataset'',
     ''dlib_evaluate'',
     ''dlib_udr'',
     ''dlib_postprocess'',
     ''dlib_train'',
     ''dlib_visualize_model'',
     ''dlib_tests'',
     ''dlib_download_data'',
     ''dlib_reproduce_jmlr'',
     ''dlib_reproduce_semi_supervised'',
     ''dlib_reproduce_weakly_supervised'',
     ''dlib_train_semi_supervised'',
     ''dlib_train_weakly_supervised''
   ]"

section \<open>Reading the dependency strings\<close>

lemmas pin_simps =
  parse_pin_def valid_name_def valid_version_def is_digit_def is_alnum_def is_name_char_def

lemma install_requires_parsed:
  "map parse_pin (install_requires (setup_kwargs pk)) =
     [Some (''future'', ''0.17.1''), Some (''imageio'', ''2.5.0''),
      Some (''gin-config'', ''0.1.4''), Some (''scikit-learn'', ''0.20.3''),
      Some (''numpy'', ''1.16.3''), Some (''pandas'', ''0.24.2''),
      Some (''simplejson'', ''3.16.0''), Some (''six'', ''1.12.0''),
      Some (''matplotlib'', ''3.0.3''), Some (''Pillow'', ''6.0.0''),
      Some (''scipy'', ''1.2.1''), Some (''tensorflow-hub'', ''0.4.0''),
      Some (''tensorflow_probability'', ''0.7.0''), Some (''seaborn'', ''0.11.0'')]"
  by (simp add: setup_kwargs_def pin_simps)

lemma parse_tensorflow: "parse_pin ''tensorflow==1.14'' = Some (''tensorflow'', ''1.14'')"
  by (simp add: pin_simps)

lemma parse_tensorflow_gpu:
  "parse_pin ''tensorflow-gpu==1.14'' = Some (''tensorflow-gpu'', ''1.14'')"
  by (simp add: pin_simps)

section \<open>Properties\<close>

text \<open>
  C1. The console scripts of the descriptor are exactly the sixteen entry points of
  the specification: for each of the sixteen names the path \<^verbatim>\<open>bin/<name>\<close> is in
  the scripts list, and each element of the scripts list is \<^verbatim>\<open>bin/<name>\<close> for one
  of them. The sixteen names are pairwise different.
\<close>

theorem scripts_are_spec_console_scripts:
  "list_all (\<lambda>n. ''bin/'' @ n \<in> set (scripts (setup_kwargs pk))) spec_console_scripts \<and>
   list_all (\<lambda>p. p \<in> (\<lambda>n. ''bin/'' @ n) ` set spec_console_scripts)
     (scripts (setup_kwargs pk)) \<and>
   length spec_console_scripts = 16 \<and>
   distinct spec_console_scripts"
  by (simp add: setup_kwargs_def spec_console_scripts_def)

text \<open>
  C2. Every string of \<^verbatim>\<open>install_requires\<close> is an exact pin \<^verbatim>\<open><name>==<version>\<close>,
  and the list pins numpy to 1.16.3, pandas to 0.24.2, scikit-learn to 0.20.3,
  tensorflow-hub to 0.4.0 and tensorflow\_probability to 0.7.0, each by exactly one
  string.
\<close>

theorem install_requires_exact_pins:
  "list_all (\<lambda>s. parse_pin s \<noteq> None) (install_requires (setup_kwargs pk)) \<and>
   pinned_versions (install_requires (setup_kwargs pk)) ''numpy'' = [''1.16.3''] \<and>
   pinned_versions (install_requires (setup_kwargs pk)) ''pandas'' = [''0.24.2''] \<and>
   pinned_versions (install_requires (setup_kwargs pk)) ''scikit-learn'' = [''0.20.3''] \<and>
   pinned_versions (install_requires (setup_kwargs pk)) ''tensorflow-hub'' = [''0.4.0''] \<and>
   pinned_versions (install_requires (setup_kwargs pk)) ''tensorflow_probability'' =
     [''0.7.0'']"
proof -
  have "list_all (\<lambda>p. p \<noteq> None) (map parse_pin (install_requires (setup_kwargs pk)))"
    by (simp add: install_requires_parsed)
  then have "list_all (\<lambda>s. parse_pin s \<noteq> None) (install_requires (setup_kwargs pk))"
    by (simp add: list.pred_map comp_def)
  then show ?thesis
    by (simp add: pinned_versions_def install_requires_parsed)
qed

text \<open>
  C3. The dictionary \<^verbatim>\<open>extras_require\<close> has exactly the keys \<^verbatim>\<open>tf\<close> and
  \<^verbatim>\<open>tf_gpu\<close>; \<^verbatim>\<open>tf\<close> maps to the single requirement \<^verbatim>\<open>tensorflow==1.14\<close> and
  \<^verbatim>\<open>tf_gpu\<close> to the single requirement \<^verbatim>\<open>tensorflow-gpu==1.14\<close>.
\<close>

theorem extras_require_tf_choice:
  "dom (dict_of (extras_require (setup_kwargs pk))) = {''tf'', ''tf_gpu''} \<and>
   dict_of (extras_require (setup_kwargs pk)) ''tf'' = Some [''tensorflow==1.14''] \<and>
   dict_of (extras_require (setup_kwargs pk)) ''tf_gpu'' = Some [''tensorflow-gpu==1.14'']"
proof -
  have e: "extras_require (setup_kwargs pk) =
      [(''tf'', [''tensorflow==1.14'']), (''tf_gpu'', [''tensorflow-gpu==1.14''])]"
    by (simp add: setup_kwargs_def)
  have "dom (dict_of (extras_require (setup_kwargs pk))) = {''tf'', ''tf_gpu''}"
    unfolding e dict_of_def by (simp add: dom_map_of_conv_image_fst insert_commute)
  moreover have "dict_of (extras_require (setup_kwargs pk)) ''tf'' = Some [''tensorflow==1.14'']"
    unfolding e dict_of_def by simp
  moreover have
    "dict_of (extras_require (setup_kwargs pk)) ''tf_gpu'' = Some [''tensorflow-gpu==1.14'']"
    unfolding e dict_of_def by simp
  ultimately show ?thesis by simp
qed

text \<open>
  C4. TensorFlow is among the declared dependencies: one of the dependency strings
  of the call (in \<^verbatim>\<open>install_requires\<close> or in a value of \<^verbatim>\<open>extras_require\<close>) names
  the package \<^verbatim>\<open>tensorflow\<close>.
\<close>

theorem tensorflow_declared:
  "list_ex (\<lambda>s. requirement_name s = Some ''tensorflow'')
     (declared_dependencies (setup_kwargs pk))"
proof -
  have "requirement_name ''tensorflow==1.14'' = Some ''tensorflow''"
    by (simp add: requirement_name_def parse_tensorflow)
  then show ?thesis
    by (simp add: declared_dependencies_def setup_kwargs_def)
qed

text \<open>
  C5. The name, version and license passed to \<^verbatim>\<open>setup\<close> are
  \<^verbatim>\<open>disentanglement_lib\<close>, \<^verbatim>\<open>1.5\<close> and \<^verbatim>\<open>Apache 2.0\<close>, and each of them is a
  string of length greater than zero, whatever packages are found.
\<close>

theorem metadata_nonempty:
  "name (setup_kwargs pk) = ''disentanglement_lib'' \<and>
   version (setup_kwargs pk) = ''1.5'' \<and>
   license (setup_kwargs pk) = ''Apache 2.0'' \<and>
   0 < length (name (setup_kwargs pk)) \<and>
   0 < length (version (setup_kwargs pk)) \<and>
   0 < length (license (setup_kwargs pk))"
  by (simp add: setup_kwargs_def)

text \<open>
  C8, as the code has it. The scripts list has 17 elements;
  \<^verbatim>\<open>bin/dlib_visualize_dataset\<close> occurs exactly twice, as the fourth and the ninth
  element (indices 3 and 8 counted from zero); every other path occurs exactly
  once; so the list holds 16 distinct paths.
\<close>

theorem scripts_duplicate_visualize_dataset:
  "length (scripts (setup_kwargs pk)) = 17 \<and>
   count_list (scripts (setup_kwargs pk)) ''bin/dlib_visualize_dataset'' = 2 \<and>
   scripts (setup_kwargs pk) ! 3 = ''bin/dlib_visualize_dataset'' \<and>
   scripts (setup_kwargs pk) ! 8 = ''bin/dlib_visualize_dataset'' \<and>
   list_all
     (\<lambda>p. count_list (scripts (setup_kwargs pk)) p =
            (if p = ''bin/dlib_visualize_dataset'' then 2 else 1))
     (scripts (setup_kwargs pk)) \<and>
   card (set (scripts (setup_kwargs pk))) = 16"
proof -
  have "card (set (scripts (setup_kwargs pk))) = length (remdups (scripts (setup_kwargs pk)))"
    by (rule List.card_set)
  also have "\<dots> = 16"
    by (simp add: setup_kwargs_def)
  finally have c: "card (set (scripts (setup_kwargs pk))) = 16" .
  have "length (scripts (setup_kwargs pk)) = 17 \<and>
   count_list (scripts (setup_kwargs pk)) ''bin/dlib_visualize_dataset'' = 2 \<and>
   scripts (setup_kwargs pk) ! 3 = ''bin/dlib_visualize_dataset'' \<and>
   scripts (setup_kwargs pk) ! 8 = ''bin/dlib_visualize_dataset'' \<and>
   list_all
     (\<lambda>p. count_list (scripts (setup_kwargs pk)) p =
            (if p = ''bin/dlib_visualize_dataset'' then 2 else 1))
     (scripts (setup_kwargs pk))"
    by (simp add: setup_kwargs_def)
  with c show ?thesis by simp
qed

text \<open>
  C8, as it is stated, puts the second occurrence at position 10. The tenth element
  of the list (index 9) is \<^verbatim>\<open>bin/dlib_visualize_model\<close> and the element at index 10
  is \<^verbatim>\<open>bin/dlib_tests\<close>: counting from one or from zero, position 10 does not hold
  \<^verbatim>\<open>bin/dlib_visualize_dataset\<close>.
\<close>

theorem scripts_position_ten_counterexample:
  "scripts (setup_kwargs []) ! 9 = ''bin/dlib_visualize_model'' \<and>
   scripts (setup_kwargs []) ! 9 \<noteq> ''bin/dlib_visualize_dataset'' \<and>
   scripts (setup_kwargs []) ! 10 = ''bin/dlib_tests'' \<and>
   scripts (setup_kwargs []) ! 10 \<noteq> ''bin/dlib_visualize_dataset''"
  by (simp add: setup_kwargs_def)

text \<open>
  C9. Every element of the scripts list starts with \<^verbatim>\<open>bin/dlib_\<close>.
\<close>

theorem scripts_share_prefix:
  "list_all (prefix ''bin/dlib_'') (scripts (setup_kwargs pk))"
  by (simp add: setup_kwargs_def)

text \<open>
  C10. Every string of \<^verbatim>\<open>install_requires\<close> is a pin of a package other than
  \<^verbatim>\<open>tensorflow\<close> and \<^verbatim>\<open>tensorflow-gpu\<close>, so the base requirements do not name
  TensorFlow itself. The extras are \<^verbatim>\<open>tf\<close> and \<^verbatim>\<open>tf_gpu\<close>, each with one requirement:
  \<^verbatim>\<open>tensorflow\<close>, respectively \<^verbatim>\<open>tensorflow-gpu\<close>, pinned to exactly 1.14.
\<close>

theorem tensorflow_only_via_extras:
  "list_all
     (\<lambda>s. parse_pin s \<noteq> None \<and>
           requirement_name s \<noteq> Some ''tensorflow'' \<and>
           requirement_name s \<noteq> Some ''tensorflow-gpu'')
     (install_requires (setup_kwargs pk)) \<and>
   map (\<lambda>(k, reqs). (k, map parse_pin reqs)) (extras_require (setup_kwargs pk)) =
     [(''tf'', [Some (''tensorflow'', ''1.14'')]),
      (''tf_gpu'', [Some (''tensorflow-gpu'', ''1.14'')])]"
proof -
  have "list_all
      (\<lambda>p. p \<noteq> None \<and> map_option fst p \<noteq> Some ''tensorflow'' \<and>
            map_option fst p \<noteq> Some ''tensorflow-gpu'')
      (map parse_pin (install_requires (setup_kwargs pk)))"
    by (simp add: install_requires_parsed)
  then have base: "list_all
      (\<lambda>s. parse_pin s \<noteq> None \<and>
            requirement_name s \<noteq> Some ''tensorflow'' \<and>
            requirement_name s \<noteq> Some ''tensorflow-gpu'')
      (install_requires (setup_kwargs pk))"
    unfolding requirement_name_def by (simp add: list.pred_map comp_def)
  have extras:
    "map (\<lambda>(k, reqs). (k, map parse_pin reqs)) (extras_require (setup_kwargs pk)) =
       [(''tf'', [Some (''tensorflow'', ''1.14'')]),
        (''tf_gpu'', [Some (''tensorflow-gpu'', ''1.14'')])]"
    by (simp add: setup_kwargs_def parse_tensorflow parse_tensorflow_gpu)
  from base extras show ?thesis by simp
qed

end
